theory Spec2Isabelle
  imports Complex_Main
begin

section \<open>JavaScript values as the two stores handle them\<close>

text \<open>
  The stores of \<^verbatim>\<open>contexts/AuthContext.js\<close> and \<^verbatim>\<open>contexts/CartContext.js\<close> keep
  whatever JSON the server answered and read it with \<^verbatim>\<open>?.\<close>, \<^verbatim>\<open>||\<close> and \<^verbatim>\<open>!!\<close>.
  A response body is therefore a JSON value; \<open>JUndefined\<close> is what reading a missing
  property gives. An object is its list of properties, the first entry of a key being
  the one that is read. JSON has neither NaN nor infinities, so a number is a rational.
\<close>

datatype jsval =
    JUndefined
  | JNull
  | JBool bool
  | JNum rat
  | JStr string
  | JArr "jsval list"
  | JObj "(string \<times> jsval) list"

text \<open>Truthiness, as \<^verbatim>\<open>if (v)\<close>, \<^verbatim>\<open>!v\<close> and \<^verbatim>\<open>v || d\<close> test it.\<close>

fun truthy :: "jsval \<Rightarrow> bool" where
  "truthy JUndefined = False"
| "truthy JNull = False"
| "truthy (JBool b) = b"
| "truthy (JNum n) = (n \<noteq> 0)"
| "truthy (JStr s) = (s \<noteq> [])"
| "truthy (JArr xs) = True"
| "truthy (JObj kvs) = True"

text \<open>
  \<^verbatim>\<open>v.k\<close> for a value that is neither null nor undefined and a key \<open>k\<close> that is a
  property name of the server's JSON (\<^verbatim>\<open>total_items\<close>, \<^verbatim>\<open>detail\<close>, ...): only an object has
  such a property.
\<close>

fun member :: "jsval \<Rightarrow> string \<Rightarrow> jsval" where
  "member (JObj kvs) k = (case map_of kvs k of None \<Rightarrow> JUndefined | Some v \<Rightarrow> v)"
| "member v k = JUndefined"

text \<open>\<^verbatim>\<open>a?.k\<close>: undefined when \<open>a\<close> is null or undefined, \<^verbatim>\<open>a.k\<close> otherwise.\<close>

definition opt_chain :: "jsval \<Rightarrow> string \<Rightarrow> jsval" where
  "opt_chain a k = (if a = JNull \<or> a = JUndefined then JUndefined else member a k)"

text \<open>\<^verbatim>\<open>a || b\<close>.\<close>

definition js_or :: "jsval \<Rightarrow> jsval \<Rightarrow> jsval" where
  "js_or a b = (if truthy a then a else b)"

text \<open>What a \<^verbatim>\<open>catch\<close> block of the stores can receive, and what \<^verbatim>\<open>throw\<close> raises.\<close>

datatype exn =
    JsError string            \<comment> \<open>\<^verbatim>\<open>new Error(message)\<close>\<close>
  | TypeError                 \<comment> \<open>destructuring null or undefined\<close>
  | AxiosError "jsval option" \<comment> \<open>a rejected request; the body of \<^verbatim>\<open>error.response\<close>, if the server answered\<close>

text \<open>\<^verbatim>\<open>error.response?.data?.detail\<close>.\<close>

fun error_detail :: "exn \<Rightarrow> jsval" where
  "error_detail (AxiosError (Some d)) = opt_chain d ''detail''"
| "error_detail (AxiosError None) = JUndefined"
| "error_detail TypeError = JUndefined"
| "error_detail (JsError m) = JUndefined"

text \<open>The two result objects the operations return.\<close>

definition success_result :: jsval where
  "success_result = JObj [(''success'', JBool True)]"

definition failure_result :: "exn \<Rightarrow> string \<Rightarrow> jsval" where
  "failure_result e fallback =
     JObj [(''success'', JBool False), (''error'', js_or (error_detail e) (JStr fallback))]"

text \<open>
  A failure result in the sense of the uniform shape \<^verbatim>\<open>{success: false, error: message}\<close>:
  an object whose \<^verbatim>\<open>success\<close> is false and that carries an \<^verbatim>\<open>error\<close>.
\<close>

definition is_failure_result :: "jsval \<Rightarrow> bool" where
  "is_failure_result v =
     (case v of JObj kvs \<Rightarrow> map_of kvs ''success'' = Some (JBool False) \<and> map_of kvs ''error'' \<noteq> None
      | _ \<Rightarrow> False)"

section \<open>The hooks \<^verbatim>\<open>useAuth\<close> and \<^verbatim>\<open>useCart\<close>\<close>

text \<open>
  \<^verbatim>\<open>useContext\<close> gives the value of the nearest provider, or the default of
  \<^verbatim>\<open>createContext()\<close>, which is undefined, when there is none: \<open>None\<close> here. The providers of
  this repository always pass an object, which is truthy.
\<close>

definition useAuth :: "'v option \<Rightarrow> exn + 'v" where
  "useAuth context =
     (case context of
        None \<Rightarrow> Inl (JsError ''useAuth must be used within an AuthProvider'')
      | Some v \<Rightarrow> Inr v)"

definition useCart :: "'v option \<Rightarrow> exn + 'v" where
  "useCart context =
     (case context of
        None \<Rightarrow> Inl (JsError ''useCart must be used within a CartProvider'')
      | Some v \<Rightarrow> Inr v)"

section \<open>The state of the two providers and of what they share\<close>

text \<open>
  An outbound request, with the \<^verbatim>\<open>Authorization\<close> header axios attached to it: the default
  header at the moment of the call. \<open>url\<close> is the path after \<^verbatim>\<open>API_BASE\<close>.
\<close>

record request =
  verb :: string
  url :: string
  payload :: jsval
  credential :: "string option"

text \<open>
  \<open>user\<close>, \<open>loading\<close>, \<open>token\<close> are the \<^verbatim>\<open>useState\<close> cells of \<^verbatim>\<open>AuthProvider\<close>,
  \<open>basket\<close> and \<open>cartLoading\<close> those of \<^verbatim>\<open>CartProvider\<close>; \<open>stored_token\<close> is
  \<^verbatim>\<open>localStorage\<close>'s \<^verbatim>\<open>token\<close> entry, \<open>authorization\<close> is
  \<^verbatim>\<open>axios.defaults.headers.common['Authorization']\<close>, and \<open>sent\<close> is the log of the
  requests issued so far, oldest first.
\<close>

record world =
  user :: jsval
  loading :: bool
  token :: "string option"
  stored_token :: "string option"
  authorization :: "string option"
  basket :: jsval
  cartLoading :: bool
  sent :: "request list"

text \<open>The answer of the server to one request: \<^verbatim>\<open>response.data\<close>, or the rejection.\<close>

datatype reply = Resolved jsval | Rejected "jsval option"

text \<open>\<^verbatim>\<open>isAuthenticated: !!user\<close>, the only thing \<^verbatim>\<open>CartProvider\<close> reads of the session.\<close>

definition isAuthenticated :: "world \<Rightarrow> bool" where
  "isAuthenticated w = truthy (user w)"

text \<open>An axios call: the request leaves with the default header of that moment.\<close>

definition axios_send :: "string \<Rightarrow> string \<Rightarrow> jsval \<Rightarrow> world \<Rightarrow> world" where
  "axios_send m u b w =
     w\<lparr>sent := sent w @ [\<lparr>verb = m, url = u, payload = b, credential = authorization w\<rparr>]\<rparr>"

section \<open>\<^verbatim>\<open>CartProvider\<close>\<close>

text \<open>
  The operations are closures of a render of \<^verbatim>\<open>CartProvider\<close>: the \<^verbatim>\<open>isAuthenticated\<close>
  they test is the value that render read from \<^verbatim>\<open>useAuth()\<close> (line 21), not the state at
  the moment of the call. It is the first argument \<open>flag\<close> of each operation here. An
  operation also takes the server's answer to the one request it may issue, and gives
  back what the caller receives and the state once it has completed.
\<close>

definition fetchBasket :: "bool \<Rightarrow> reply \<Rightarrow> world \<Rightarrow> jsval \<times> world" where
  "fetchBasket flag r w =
     (if \<not> flag then (JUndefined, w)
      else
        let w1 = axios_send ''GET'' ''/basket/'' JUndefined (w\<lparr>cartLoading := True\<rparr>)
        in case r of
             Resolved d \<Rightarrow> (JUndefined, w1\<lparr>basket := d, cartLoading := False\<rparr>)
           | Rejected e \<Rightarrow> (JUndefined, w1\<lparr>cartLoading := False\<rparr>))"

text \<open>
  The four mutating operations. \<^verbatim>\<open>setLoading(false)\<close> of the \<^verbatim>\<open>finally\<close> block runs on
  both paths; the early return of the first line is outside the \<^verbatim>\<open>try\<close>. The default
  \<^verbatim>\<open>quantity = 1\<close> of \<^verbatim>\<open>addToBasket\<close> applies when the argument is undefined.
\<close>

definition addToBasket :: "bool \<Rightarrow> jsval \<Rightarrow> jsval \<Rightarrow> jsval \<Rightarrow> reply \<Rightarrow> world \<Rightarrow> jsval \<times> world" where
  "addToBasket flag productId storeId quantity r w =
     (if \<not> flag
      then (JObj [(''success'', JBool False), (''error'', JStr ''Not authenticated'')], w)
      else
        let w1 = axios_send ''POST'' ''/basket/items'' 
          (JObj [(''product_id'', productId), (''store_id'', storeId),
                 (''quantity'', if quantity = JUndefined then JNum 1 else quantity)])
          (w\<lparr>cartLoading := True\<rparr>)
        in case r of
             Resolved d \<Rightarrow> (success_result, w1\<lparr>basket := d, cartLoading := False\<rparr>)
           | Rejected e \<Rightarrow>
               (failure_result (AxiosError e) ''Failed to add to basket'', w1\<lparr>cartLoading := False\<rparr>))"

definition updateBasketItem :: "bool \<Rightarrow> string \<Rightarrow> jsval \<Rightarrow> reply \<Rightarrow> world \<Rightarrow> jsval \<times> world" where
  "updateBasketItem flag itemId quantity r w =
     (if \<not> flag
      then (JObj [(''success'', JBool False), (''error'', JStr ''Not authenticated'')], w)
      else
        let w1 = axios_send ''PUT'' (''/basket/items/'' @ itemId) (JObj [(''quantity'', quantity)]) (w\<lparr>cartLoading := True\<rparr>)
        in case r of
             Resolved d \<Rightarrow> (success_result, w1\<lparr>basket := d, cartLoading := False\<rparr>)
           | Rejected e \<Rightarrow>
               (failure_result (AxiosError e) ''Failed to update item'', w1\<lparr>cartLoading := False\<rparr>))"

definition removeFromBasket :: "bool \<Rightarrow> string \<Rightarrow> reply \<Rightarrow> world \<Rightarrow> jsval \<times> world" where
  "removeFromBasket flag itemId r w =
     (if \<not> flag
      then (JObj [(''success'', JBool False), (''error'', JStr ''Not authenticated'')], w)
      else
        let w1 = axios_send ''DELETE'' (''/basket/items/'' @ itemId) JUndefined (w\<lparr>cartLoading := True\<rparr>)
        in case r of
             Resolved d \<Rightarrow> (success_result, w1\<lparr>basket := d, cartLoading := False\<rparr>)
           | Rejected e \<Rightarrow>
               (failure_result (AxiosError e) ''Failed to remove item'', w1\<lparr>cartLoading := False\<rparr>))"

definition clearBasket :: "bool \<Rightarrow> reply \<Rightarrow> world \<Rightarrow> jsval \<times> world" where
  "clearBasket flag r w =
     (if \<not> flag
      then (JObj [(''success'', JBool False), (''error'', JStr ''Not authenticated'')], w)
      else
        let w1 = axios_send ''DELETE'' ''/basket/'' JUndefined (w\<lparr>cartLoading := True\<rparr>)
        in case r of
             Resolved d \<Rightarrow> (success_result, w1\<lparr>basket := d, cartLoading := False\<rparr>)
           | Rejected e \<Rightarrow>
               (failure_result (AxiosError e) ''Failed to clear basket'', w1\<lparr>cartLoading := False\<rparr>))"

definition getBasketSummary :: "bool \<Rightarrow> reply \<Rightarrow> world \<Rightarrow> jsval \<times> world" where
  "getBasketSummary flag r w =
     (if \<not> flag then (JNull, w)
      else
        let w1 = axios_send ''GET'' ''/basket/summary'' JUndefined w
        in case r of
             Resolved d \<Rightarrow> (d, w1)
           | Rejected e \<Rightarrow> (JNull, w1))"

text \<open>The derived values of the context value, lines 149 to 151.\<close>

definition itemCount :: "world \<Rightarrow> jsval" where
  "itemCount w = js_or (opt_chain (basket w) ''total_items'') (JNum 0)"

definition totalCost :: "world \<Rightarrow> jsval" where
  "totalCost w = js_or (opt_chain (basket w) ''total_cost'') (JNum 0)"

definition estimatedSavings :: "world \<Rightarrow> jsval" where
  "estimatedSavings w = js_or (opt_chain (basket w) ''estimated_savings'') (JNum 0)"

section \<open>\<^verbatim>\<open>AuthProvider\<close>\<close>

text \<open>
  What the login and the registration endpoint can answer: a body
  \<^verbatim>\<open>{access_token, user}\<close> with the token a string, a success without a body (the
  destructuring of line 60 then throws a \<^verbatim>\<open>TypeError\<close>, which the \<^verbatim>\<open>catch\<close> receives), or a
  rejection.
\<close>

datatype grant = Granted string jsval | Bodiless | Refused "jsval option"

definition login :: "string \<Rightarrow> string \<Rightarrow> grant \<Rightarrow> world \<Rightarrow> jsval \<times> world" where
  "login email password g w =
     (let w1 = axios_send ''POST'' ''/auth/login''
                 (JObj [(''email'', JStr email), (''password'', JStr password)]) w
      in case g of
           Granted access_token userData \<Rightarrow>
             (success_result,
              w1\<lparr>stored_token := Some access_token, token := Some access_token,
                 user := userData, authorization := Some (''Bearer '' @ access_token)\<rparr>)
         | Bodiless \<Rightarrow> (failure_result TypeError ''Login failed'', w1)
         | Refused e \<Rightarrow> (failure_result (AxiosError e) ''Login failed'', w1))"

definition register :: "string \<Rightarrow> string \<Rightarrow> string \<Rightarrow> jsval \<Rightarrow> grant \<Rightarrow> world \<Rightarrow> jsval \<times> world" where
  "register email password fullName location g w =
     (let w1 = axios_send ''POST'' ''/auth/register''
                 (JObj [(''email'', JStr email), (''password'', JStr password),
                        (''full_name'', JStr fullName), (''location'', location)]) w
      in case g of
           Granted access_token userData \<Rightarrow>
             (success_result,
              w1\<lparr>stored_token := Some access_token, token := Some access_token,
                 user := userData, authorization := Some (''Bearer '' @ access_token)\<rparr>)
         | Bodiless \<Rightarrow> (failure_result TypeError ''Registration failed'', w1)
         | Refused e \<Rightarrow> (failure_result (AxiosError e) ''Registration failed'', w1))"

definition logout :: "world \<Rightarrow> world" where
  "logout w = w\<lparr>stored_token := None, token := None, user := JNull, authorization := None\<rparr>"

definition updateUser :: "jsval \<Rightarrow> reply \<Rightarrow> world \<Rightarrow> jsval \<times> world" where
  "updateUser userData r w =
     (let w1 = axios_send ''PUT'' ''/auth/me'' userData w
      in case r of
           Resolved d \<Rightarrow> (success_result, w1\<lparr>user := d\<rparr>)
         | Rejected e \<Rightarrow> (failure_result (AxiosError e) ''Update failed'', w1))"

text \<open>
  \<^verbatim>\<open>checkAuth\<close>, lines 33 to 48, with the server's answer to \<^verbatim>\<open>GET /auth/me\<close>. An empty
  string is falsy, so an empty saved token is treated like none.
\<close>

definition checkAuth :: "reply \<Rightarrow> world \<Rightarrow> world" where
  "checkAuth r w =
     (case stored_token w of
        None \<Rightarrow> w\<lparr>loading := False\<rparr>
      | Some savedToken \<Rightarrow>
          if savedToken = [] then w\<lparr>loading := False\<rparr>
          else
            let w1 = axios_send ''GET'' ''/auth/me'' JUndefined
                       (w\<lparr>authorization := Some (''Bearer '' @ savedToken)\<rparr>)
            in (case r of
                  Resolved d \<Rightarrow> w1\<lparr>user := d, token := Some savedToken, loading := False\<rparr>
                | Rejected e \<Rightarrow> w1\<lparr>stored_token := None, authorization := None, loading := False\<rparr>))"

section \<open>Effects and renders\<close>

text \<open>
  The effect of \<^verbatim>\<open>AuthProvider\<close> on \<^verbatim>\<open>[token]\<close> (lines 23 to 29) and the effect of
  \<^verbatim>\<open>CartProvider\<close> on \<^verbatim>\<open>[isAuthenticated]\<close> (lines 24 to 30). The second one calls
  \<^verbatim>\<open>fetchBasket\<close> and so needs the server's answer to that request. An effect belongs to
  the render it runs after, so the flag it and its \<^verbatim>\<open>fetchBasket\<close> hold is that of the state
  rendered.
\<close>

definition header_effect :: "world \<Rightarrow> world" where
  "header_effect w =
     (case token w of
        None \<Rightarrow> w\<lparr>authorization := None\<rparr>
      | Some t \<Rightarrow> if t \<noteq> [] then w\<lparr>authorization := Some (''Bearer '' @ t)\<rparr>
                  else w\<lparr>authorization := None\<rparr>)"

definition cart_effect :: "reply \<Rightarrow> world \<Rightarrow> world" where
  "cart_effect fr w =
     (let flag = isAuthenticated w
      in if flag then snd (fetchBasket flag fr w) else w\<lparr>basket := JNull\<rparr>)"

text \<open>
  React runs an effect after the first render and after every render in which one of its
  dependencies differs from the previous render; the effects of a child run before those
  of its parent, and \<^verbatim>\<open>CartProvider\<close> is rendered inside \<^verbatim>\<open>AuthProvider\<close> (\<^verbatim>\<open>App.js\<close>).
  \<open>rerender old fr w\<close> is the state after the render that follows an operation which took
  \<open>old\<close> to \<open>w\<close>; the state updates of one operation are applied in one render.
\<close>

definition rerender :: "world \<Rightarrow> reply \<Rightarrow> world \<Rightarrow> world" where
  "rerender old fr w =
     (let w1 = (if isAuthenticated w \<noteq> isAuthenticated old then cart_effect fr w else w)
      in if token w1 \<noteq> token old then header_effect w1 else w1)"

text \<open>The first render: the initial values of the \<^verbatim>\<open>useState\<close> cells, in a fresh page.\<close>

definition mount :: "string option \<Rightarrow> world" where
  "mount persisted =
     \<lparr>user = JNull, loading = True, token = persisted, stored_token = persisted,
      authorization = None, basket = JNull, cartLoading = False, sent = []\<rparr>"

text \<open>
  Startup (\<open>initialize()\<close> in the specification): the first render, its effects, of which
  \<^verbatim>\<open>checkAuth\<close> is the last, and the render that follows. \<open>r\<close> answers the profile request
  and \<open>fr\<close> the basket request, if they are issued.
\<close>

definition initialize :: "string option \<Rightarrow> reply \<Rightarrow> reply \<Rightarrow> world" where
  "initialize persisted r fr =
     (let w0 = header_effect (cart_effect fr (mount persisted))
      in rerender w0 fr (checkAuth r w0))"

section \<open>Runs of the application\<close>

text \<open>
  One user action: the operation, with the server's answer to its request, and the answer
  \<open>fr\<close> to the basket request of the render that follows, should there be one. Every
  action of a run is taken from the latest render, which follows the previous action, so
  the flag a cart operation holds there is that of the state it starts from.
\<close>

datatype event =
    Login string string grant reply
  | Register string string string jsval grant reply
  | Logout reply
  | UpdateUser jsval reply reply
  | FetchBasket reply
  | AddToBasket jsval jsval jsval reply
  | UpdateBasketItem string jsval reply
  | RemoveFromBasket string reply
  | ClearBasket reply
  | GetBasketSummary reply

fun step :: "event \<Rightarrow> world \<Rightarrow> world" where
  "step (Login e p g fr) w = rerender w fr (snd (login e p g w))"
| "step (Register e p n l g fr) w = rerender w fr (snd (register e p n l g w))"
| "step (Logout fr) w = rerender w fr (logout w)"
| "step (UpdateUser u r fr) w = rerender w fr (snd (updateUser u r w))"
| "step (FetchBasket r) w = snd (fetchBasket (isAuthenticated w) r w)"
| "step (AddToBasket p s q r) w = snd (addToBasket (isAuthenticated w) p s q r w)"
| "step (UpdateBasketItem i q r) w = snd (updateBasketItem (isAuthenticated w) i q r w)"
| "step (RemoveFromBasket i r) w = snd (removeFromBasket (isAuthenticated w) i r w)"
| "step (ClearBasket r) w = snd (clearBasket (isAuthenticated w) r w)"
| "step (GetBasketSummary r) w = snd (getBasketSummary (isAuthenticated w) r w)"






section \<open>Helper facts\<close>

lemma opt_chain_member: "opt_chain a k = member a k"
  by (cases a) (simp_all add: opt_chain_def)

lemma js_or_num: "js_or (JNum n) (JNum 0) = JNum n"
  by (simp add: js_or_def)

lemma js_or_falsy: "\<not> truthy a \<Longrightarrow> js_or a b = b"
  by (simp add: js_or_def)

lemma js_or_truthy: "truthy a \<Longrightarrow> js_or a b = a"
  by (simp add: js_or_def)

section \<open>The hooks\<close>

text \<open>
  C10. Outside its provider, where the context has no value, \<^verbatim>\<open>useAuth\<close> and \<^verbatim>\<open>useCart\<close>
  throw an \<^verbatim>\<open>Error\<close>; inside the provider each returns the value the provider passed.
\<close>

theorem hooks_throw_outside_provider:
  "useAuth None = Inl (JsError ''useAuth must be used within an AuthProvider'')
   \<and> useCart None = Inl (JsError ''useCart must be used within a CartProvider'')
   \<and> useAuth (Some v) = Inr v
   \<and> useCart (Some v) = Inr v"
  by (simp add: useAuth_def useCart_def)

section \<open>The derived values\<close>

text \<open>
  C6, as the code has it. Each derived value is 0 when the snapshot is absent. When the
  snapshot is present, each equals the corresponding field if that field is a number
  (zero included) or any other truthy value, and is 0 when the field is missing, null or
  otherwise falsy: \<^verbatim>\<open>|| 0\<close> replaces an absent \<^verbatim>\<open>estimated_savings\<close> by 0.
\<close>

theorem derived_values_project_snapshot:
  "(basket w = JNull \<or> basket w = JUndefined \<longrightarrow>
      itemCount w = JNum 0 \<and> totalCost w = JNum 0 \<and> estimatedSavings w = JNum 0)
   \<and> (member (basket w) ''total_items'' = JNum n \<longrightarrow> itemCount w = JNum n)
   \<and> (member (basket w) ''total_cost'' = JNum c \<longrightarrow> totalCost w = JNum c)
   \<and> (member (basket w) ''estimated_savings'' = JNum e \<longrightarrow> estimatedSavings w = JNum e)
   \<and> (truthy (member (basket w) ''total_items'') \<longrightarrow>
        itemCount w = member (basket w) ''total_items'')
   \<and> (truthy (member (basket w) ''total_cost'') \<longrightarrow>
        totalCost w = member (basket w) ''total_cost'')
   \<and> (truthy (member (basket w) ''estimated_savings'') \<longrightarrow>
        estimatedSavings w = member (basket w) ''estimated_savings'')
   \<and> (\<not> truthy (member (basket w) ''total_items'') \<longrightarrow> itemCount w = JNum 0)
   \<and> (\<not> truthy (member (basket w) ''total_cost'') \<longrightarrow> totalCost w = JNum 0)
   \<and> (\<not> truthy (member (basket w) ''estimated_savings'') \<longrightarrow> estimatedSavings w = JNum 0)"
proof -
  have absent: "basket w = JNull \<or> basket w = JUndefined \<Longrightarrow> member (basket w) k = JUndefined" for k
    by auto
  show ?thesis
    unfolding itemCount_def totalCost_def estimatedSavings_def opt_chain_member
    by (auto simp: js_or_num js_or_falsy js_or_truthy absent)
qed

theorem derived_values_project_snapshot_witness:
  "itemCount (mount None) = JNum 0
   \<and> totalCost (mount None) = JNum 0
   \<and> estimatedSavings (mount None) = JNum 0
   \<and> itemCount ((mount None)\<lparr>basket :=
        JObj [(''total_items'', JNum 2), (''total_cost'', JNum 4), (''estimated_savings'', JNum 1)]\<rparr>)
      = JNum 2
   \<and> totalCost ((mount None)\<lparr>basket :=
        JObj [(''total_items'', JNum 2), (''total_cost'', JNum 4), (''estimated_savings'', JNum 1)]\<rparr>)
      = JNum 4
   \<and> estimatedSavings ((mount None)\<lparr>basket :=
        JObj [(''total_items'', JNum 2), (''total_cost'', JNum 4), (''estimated_savings'', JNum 1)]\<rparr>)
      = JNum 1
   \<and> estimatedSavings ((mount None)\<lparr>basket :=
        JObj [(''total_items'', JNum 2), (''total_cost'', JNum 4)]\<rparr>)
      = JNum 0"
  using derived_values_project_snapshot [of "mount None" 0 0 0]
    derived_values_project_snapshot [of "(mount None)\<lparr>basket :=
        JObj [(''total_items'', JNum 2), (''total_cost'', JNum 4), (''estimated_savings'', JNum 1)]\<rparr>" 2 4 1]
    derived_values_project_snapshot [of "(mount None)\<lparr>basket :=
        JObj [(''total_items'', JNum 2), (''total_cost'', JNum 4)]\<rparr>" 2 4 0]
  by (simp add: mount_def)

text \<open>
  The claim as written fails on a snapshot without \<^verbatim>\<open>estimated_savings\<close>, an optional
  field: the snapshot is present, the field is undefined, and the derived value is 0.
\<close>

theorem derived_values_counterexample:
  "basket ((mount None)\<lparr>basket :=
       JObj [(''items'', JArr []), (''total_items'', JNum 0), (''total_cost'', JNum 0),
             (''alternative_stores'', JObj [])]\<rparr>) \<noteq> JNull
   \<and> member (basket ((mount None)\<lparr>basket :=
       JObj [(''items'', JArr []), (''total_items'', JNum 0), (''total_cost'', JNum 0),
             (''alternative_stores'', JObj [])]\<rparr>)) ''estimated_savings'' = JUndefined
   \<and> estimatedSavings ((mount None)\<lparr>basket :=
       JObj [(''items'', JArr []), (''total_items'', JNum 0), (''total_cost'', JNum 0),
             (''alternative_stores'', JObj [])]\<rparr>) = JNum 0
   \<and> estimatedSavings ((mount None)\<lparr>basket :=
       JObj [(''items'', JArr []), (''total_items'', JNum 0), (''total_cost'', JNum 0),
             (''alternative_stores'', JObj [])]\<rparr>)
     \<noteq> member (basket ((mount None)\<lparr>basket :=
       JObj [(''items'', JArr []), (''total_items'', JNum 0), (''total_cost'', JNum 0),
             (''alternative_stores'', JObj [])]\<rparr>)) ''estimated_savings''"
  by (simp add: estimatedSavings_def opt_chain_def js_or_def)

section \<open>The operations of \<^verbatim>\<open>CartProvider\<close>\<close>

lemma failure_result_is_failure: "is_failure_result (failure_result e m)"
  by (simp add: is_failure_result_def failure_result_def)

text \<open>
  C1. When the render an operation belongs to is authenticated and the request of
  \<^verbatim>\<open>addToBasket\<close>, \<^verbatim>\<open>updateBasketItem\<close>, \<^verbatim>\<open>removeFromBasket\<close> or \<^verbatim>\<open>clearBasket\<close>
  succeeds, the caller receives the success result and the snapshot afterwards is the
  response body itself; the state afterwards does not depend on the previous snapshot.
\<close>

theorem mutation_replaces_snapshot:
  assumes "flag"
  shows "fst (addToBasket flag p s q (Resolved d) w) = success_result
    \<and> basket (snd (addToBasket flag p s q (Resolved d) w)) = d
    \<and> snd (addToBasket flag p s q (Resolved d) (w\<lparr>basket := b0\<rparr>)) = snd (addToBasket flag p s q (Resolved d) w)
    \<and> fst (updateBasketItem flag i q (Resolved d) w) = success_result
    \<and> basket (snd (updateBasketItem flag i q (Resolved d) w)) = d
    \<and> snd (updateBasketItem flag i q (Resolved d) (w\<lparr>basket := b0\<rparr>)) = snd (updateBasketItem flag i q (Resolved d) w)
    \<and> fst (removeFromBasket flag i (Resolved d) w) = success_result
    \<and> basket (snd (removeFromBasket flag i (Resolved d) w)) = d
    \<and> snd (removeFromBasket flag i (Resolved d) (w\<lparr>basket := b0\<rparr>)) = snd (removeFromBasket flag i (Resolved d) w)
    \<and> fst (clearBasket flag (Resolved d) w) = success_result
    \<and> basket (snd (clearBasket flag (Resolved d) w)) = d
    \<and> snd (clearBasket flag (Resolved d) (w\<lparr>basket := b0\<rparr>)) = snd (clearBasket flag (Resolved d) w)"
proof -
  have add: "fst (addToBasket flag p s q (Resolved d) w) = success_result
    \<and> basket (snd (addToBasket flag p s q (Resolved d) w)) = d
    \<and> snd (addToBasket flag p s q (Resolved d) (w\<lparr>basket := b0\<rparr>)) = snd (addToBasket flag p s q (Resolved d) w)"
    using assms by (simp add: addToBasket_def axios_send_def Let_def)
  have upd: "fst (updateBasketItem flag i q (Resolved d) w) = success_result
    \<and> basket (snd (updateBasketItem flag i q (Resolved d) w)) = d
    \<and> snd (updateBasketItem flag i q (Resolved d) (w\<lparr>basket := b0\<rparr>)) = snd (updateBasketItem flag i q (Resolved d) w)"
    using assms by (simp add: updateBasketItem_def axios_send_def Let_def)
  have rem: "fst (removeFromBasket flag i (Resolved d) w) = success_result
    \<and> basket (snd (removeFromBasket flag i (Resolved d) w)) = d
    \<and> snd (removeFromBasket flag i (Resolved d) (w\<lparr>basket := b0\<rparr>)) = snd (removeFromBasket flag i (Resolved d) w)"
    using assms by (simp add: removeFromBasket_def axios_send_def Let_def)
  have cle: "fst (clearBasket flag (Resolved d) w) = success_result
    \<and> basket (snd (clearBasket flag (Resolved d) w)) = d
    \<and> snd (clearBasket flag (Resolved d) (w\<lparr>basket := b0\<rparr>)) = snd (clearBasket flag (Resolved d) w)"
    using assms by (simp add: clearBasket_def axios_send_def Let_def)
  from add upd rem cle show ?thesis by blast
qed

theorem mutation_replaces_snapshot_witness:
  "isAuthenticated ((mount None)\<lparr>user := JObj [(''id'', JNum 1)], basket := JObj [(''total_items'', JNum 5)]\<rparr>)
   \<and> basket (snd (addToBasket (isAuthenticated ((mount None)\<lparr>user := JObj [(''id'', JNum 1)], basket := JObj [(''total_items'', JNum 5)]\<rparr>)) (JStr ''P1'') (JStr ''S1'') (JNum 2)
        (Resolved (JObj [(''total_items'', JNum 1), (''total_cost'', JNum 4)])) ((mount None)\<lparr>user := JObj [(''id'', JNum 1)], basket := JObj [(''total_items'', JNum 5)]\<rparr>)))
     = JObj [(''total_items'', JNum 1), (''total_cost'', JNum 4)]
   \<and> basket (snd (clearBasket (isAuthenticated ((mount None)\<lparr>user := JObj [(''id'', JNum 1)], basket := JObj [(''total_items'', JNum 5)]\<rparr>))
        (Resolved (JObj [(''total_items'', JNum 1), (''total_cost'', JNum 4)])) ((mount None)\<lparr>user := JObj [(''id'', JNum 1)], basket := JObj [(''total_items'', JNum 5)]\<rparr>)))
     = JObj [(''total_items'', JNum 1), (''total_cost'', JNum 4)]"
proof -
  have h: "isAuthenticated ((mount None)\<lparr>user := JObj [(''id'', JNum 1)], basket := JObj [(''total_items'', JNum 5)]\<rparr>)"
    by (simp add: isAuthenticated_def)
  from h mutation_replaces_snapshot [OF h, where p = "JStr ''P1''" and s = "JStr ''S1''"
        and q = "JNum 2" and d = "JObj [(''total_items'', JNum 1), (''total_cost'', JNum 4)]"
        and w = "(mount None)\<lparr>user := JObj [(''id'', JNum 1)], basket := JObj [(''total_items'', JNum 5)]\<rparr>"]
  show ?thesis by blast
qed

text \<open>
  C2, as the code has it. An operation of \<^verbatim>\<open>CartProvider\<close> that belongs to an
  unauthenticated render issues no request and changes nothing; the four mutating
  operations return the failure result \<^verbatim>\<open>{success: false, error: 'Not authenticated'}\<close>,
  \<^verbatim>\<open>getBasketSummary\<close> returns null and \<^verbatim>\<open>fetchBasket\<close> returns undefined. The render
  that follows \<^verbatim>\<open>logout()\<close> is unauthenticated, so every cart action taken from it leaves
  the state, and with it the log of requests, as it was. An operation of an earlier,
  authenticated render that is called once \<^verbatim>\<open>logout()\<close> has run but before that render
  still holds a true flag and sends its request, without a credential.
\<close>

theorem unauthenticated_short_circuit:
  assumes "\<not> flag"
  shows "fetchBasket flag r w = (JUndefined, w)
    \<and> addToBasket flag p s q r w 
        = (JObj [(''success'', JBool False), (''error'', JStr ''Not authenticated'')], w)
    \<and> updateBasketItem flag i q r w 
        = (JObj [(''success'', JBool False), (''error'', JStr ''Not authenticated'')], w)
    \<and> removeFromBasket flag i r w 
        = (JObj [(''success'', JBool False), (''error'', JStr ''Not authenticated'')], w)
    \<and> clearBasket flag r w 
        = (JObj [(''success'', JBool False), (''error'', JStr ''Not authenticated'')], w)
    \<and> getBasketSummary flag r w = (JNull, w)
    \<and> is_failure_result (JObj [(''success'', JBool False), (''error'', JStr ''Not authenticated'')])
    \<and> \<not> isAuthenticated (step (Logout fr) w0)
    \<and> step (FetchBasket r) (step (Logout fr) w0) = step (Logout fr) w0
    \<and> step (AddToBasket p s q r) (step (Logout fr) w0) = step (Logout fr) w0
    \<and> step (UpdateBasketItem i q r) (step (Logout fr) w0) = step (Logout fr) w0
    \<and> step (RemoveFromBasket i r) (step (Logout fr) w0) = step (Logout fr) w0
    \<and> step (ClearBasket r) (step (Logout fr) w0) = step (Logout fr) w0
    \<and> step (GetBasketSummary r) (step (Logout fr) w0) = step (Logout fr) w0
    \<and> sent (snd (fetchBasket True r (logout w0)))
        = sent w0 @ [\<lparr>verb = ''GET'', url = ''/basket/'', payload = JUndefined, credential = None\<rparr>]
    \<and> sent (snd (clearBasket True r (logout w0)))
        = sent w0 @ [\<lparr>verb = ''DELETE'', url = ''/basket/'', payload = JUndefined, credential = None\<rparr>]"
proof -
  have ops: "fetchBasket flag r w = (JUndefined, w)
    \<and> addToBasket flag p s q r w 
        = (JObj [(''success'', JBool False), (''error'', JStr ''Not authenticated'')], w)
    \<and> updateBasketItem flag i q r w 
        = (JObj [(''success'', JBool False), (''error'', JStr ''Not authenticated'')], w)
    \<and> removeFromBasket flag i r w 
        = (JObj [(''success'', JBool False), (''error'', JStr ''Not authenticated'')], w)
    \<and> clearBasket flag r w 
        = (JObj [(''success'', JBool False), (''error'', JStr ''Not authenticated'')], w)
    \<and> getBasketSummary flag r w = (JNull, w)"
    using assms
    by (simp add: fetchBasket_def addToBasket_def updateBasketItem_def removeFromBasket_def
        clearBasket_def getBasketSummary_def)
  have shape: "is_failure_result (JObj [(''success'', JBool False), (''error'', JStr ''Not authenticated'')])"
    by (simp add: is_failure_result_def)
  have out: "\<not> isAuthenticated (step (Logout fr) w0)"
    by (simp add: logout_def isAuthenticated_def rerender_def cart_effect_def header_effect_def Let_def)
  have after: "step (FetchBasket r) (step (Logout fr) w0) = step (Logout fr) w0
    \<and> step (AddToBasket p s q r) (step (Logout fr) w0) = step (Logout fr) w0
    \<and> step (UpdateBasketItem i q r) (step (Logout fr) w0) = step (Logout fr) w0
    \<and> step (RemoveFromBasket i r) (step (Logout fr) w0) = step (Logout fr) w0
    \<and> step (ClearBasket r) (step (Logout fr) w0) = step (Logout fr) w0
    \<and> step (GetBasketSummary r) (step (Logout fr) w0) = step (Logout fr) w0"
    using out
    by (simp add: fetchBasket_def addToBasket_def updateBasketItem_def removeFromBasket_def
        clearBasket_def getBasketSummary_def del: step.simps(3))
  have stale: "sent (snd (fetchBasket True r (logout w0)))
        = sent w0 @ [\<lparr>verb = ''GET'', url = ''/basket/'', payload = JUndefined, credential = None\<rparr>]
    \<and> sent (snd (clearBasket True r (logout w0)))
        = sent w0 @ [\<lparr>verb = ''DELETE'', url = ''/basket/'', payload = JUndefined, credential = None\<rparr>]"
    by (cases r) (simp_all add: fetchBasket_def clearBasket_def axios_send_def logout_def Let_def)
  from ops shape out after stale show ?thesis by blast
qed

theorem unauthenticated_short_circuit_witness:
  "\<not> isAuthenticated (step (Logout (Rejected None)) ((mount None)\<lparr>user := JObj [(''id'', JNum 1)], basket := JObj [(''total_items'', JNum 5)]\<rparr>))
   \<and> addToBasket (isAuthenticated (step (Logout (Rejected None)) ((mount None)\<lparr>user := JObj [(''id'', JNum 1)], basket := JObj [(''total_items'', JNum 5)]\<rparr>))) (JStr ''P1'') (JStr ''S1'') (JNum 2) (Resolved JNull) (step (Logout (Rejected None)) ((mount None)\<lparr>user := JObj [(''id'', JNum 1)], basket := JObj [(''total_items'', JNum 5)]\<rparr>))
     = (JObj [(''success'', JBool False), (''error'', JStr ''Not authenticated'')], (step (Logout (Rejected None)) ((mount None)\<lparr>user := JObj [(''id'', JNum 1)], basket := JObj [(''total_items'', JNum 5)]\<rparr>)))
   \<and> clearBasket (isAuthenticated (step (Logout (Rejected None)) ((mount None)\<lparr>user := JObj [(''id'', JNum 1)], basket := JObj [(''total_items'', JNum 5)]\<rparr>))) (Resolved JNull) (step (Logout (Rejected None)) ((mount None)\<lparr>user := JObj [(''id'', JNum 1)], basket := JObj [(''total_items'', JNum 5)]\<rparr>))
     = (JObj [(''success'', JBool False), (''error'', JStr ''Not authenticated'')], (step (Logout (Rejected None)) ((mount None)\<lparr>user := JObj [(''id'', JNum 1)], basket := JObj [(''total_items'', JNum 5)]\<rparr>)))
   \<and> getBasketSummary (isAuthenticated (step (Logout (Rejected None)) ((mount None)\<lparr>user := JObj [(''id'', JNum 1)], basket := JObj [(''total_items'', JNum 5)]\<rparr>))) (Resolved JNull) (step (Logout (Rejected None)) ((mount None)\<lparr>user := JObj [(''id'', JNum 1)], basket := JObj [(''total_items'', JNum 5)]\<rparr>)) = (JNull, (step (Logout (Rejected None)) ((mount None)\<lparr>user := JObj [(''id'', JNum 1)], basket := JObj [(''total_items'', JNum 5)]\<rparr>)))
   \<and> sent (step (Logout (Rejected None)) ((mount None)\<lparr>user := JObj [(''id'', JNum 1)], basket := JObj [(''total_items'', JNum 5)]\<rparr>)) = []"
proof -
  have h: "\<not> isAuthenticated (step (Logout (Rejected None)) ((mount None)\<lparr>user := JObj [(''id'', JNum 1)], basket := JObj [(''total_items'', JNum 5)]\<rparr>))"
    by (simp add: logout_def isAuthenticated_def rerender_def cart_effect_def header_effect_def Let_def)
  have e: "sent (step (Logout (Rejected None)) ((mount None)\<lparr>user := JObj [(''id'', JNum 1)], basket := JObj [(''total_items'', JNum 5)]\<rparr>)) = []"
    by (simp add: logout_def isAuthenticated_def rerender_def cart_effect_def header_effect_def
        mount_def Let_def)
  from h e unauthenticated_short_circuit [OF h, where r = "Resolved JNull" and p = "JStr ''P1''"
      and s = "JStr ''S1''" and q = "JNum 2"
      and w = "step (Logout (Rejected None)) ((mount None)\<lparr>user := JObj [(''id'', JNum 1)], basket := JObj [(''total_items'', JNum 5)]\<rparr>)"]
  show ?thesis by blast
qed

text \<open>
  The claim as written fails twice. From the render that follows \<^verbatim>\<open>logout()\<close>,
  \<^verbatim>\<open>fetchBasket\<close> returns undefined, which is not a failure result and is also what it
  returns when an authenticated fetch succeeds. And \<^verbatim>\<open>clearBasket\<close> of the authenticated
  render, called right after \<^verbatim>\<open>logout()\<close> has run and before the next render, sends its
  request although the user is already null.
\<close>

theorem unauthenticated_call_counterexample:
  "\<not> isAuthenticated (step (Logout (Rejected None)) ((mount None)\<lparr>user := JObj [(''id'', JNum 1)], basket := JObj [(''total_items'', JNum 5)]\<rparr>))
   \<and> fst (fetchBasket (isAuthenticated (step (Logout (Rejected None)) ((mount None)\<lparr>user := JObj [(''id'', JNum 1)], basket := JObj [(''total_items'', JNum 5)]\<rparr>))) (Resolved (JObj [])) (step (Logout (Rejected None)) ((mount None)\<lparr>user := JObj [(''id'', JNum 1)], basket := JObj [(''total_items'', JNum 5)]\<rparr>))) = JUndefined
   \<and> \<not> is_failure_result (fst (fetchBasket (isAuthenticated (step (Logout (Rejected None)) ((mount None)\<lparr>user := JObj [(''id'', JNum 1)], basket := JObj [(''total_items'', JNum 5)]\<rparr>))) (Resolved (JObj [])) (step (Logout (Rejected None)) ((mount None)\<lparr>user := JObj [(''id'', JNum 1)], basket := JObj [(''total_items'', JNum 5)]\<rparr>))))
   \<and> fst (fetchBasket (isAuthenticated ((mount None)\<lparr>user := JObj [(''id'', JNum 1)], basket := JObj [(''total_items'', JNum 5)]\<rparr>)) (Resolved (JObj [])) ((mount None)\<lparr>user := JObj [(''id'', JNum 1)], basket := JObj [(''total_items'', JNum 5)]\<rparr>)) = JUndefined
   \<and> user (logout ((mount None)\<lparr>user := JObj [(''id'', JNum 1)], basket := JObj [(''total_items'', JNum 5)]\<rparr>)) = JNull
   \<and> sent (snd (clearBasket (isAuthenticated ((mount None)\<lparr>user := JObj [(''id'', JNum 1)], basket := JObj [(''total_items'', JNum 5)]\<rparr>)) (Resolved (JObj [])) (logout ((mount None)\<lparr>user := JObj [(''id'', JNum 1)], basket := JObj [(''total_items'', JNum 5)]\<rparr>))))
       = [\<lparr>verb = ''DELETE'', url = ''/basket/'', payload = JUndefined, credential = None\<rparr>]"
  by (simp add: fetchBasket_def clearBasket_def logout_def isAuthenticated_def is_failure_result_def
      rerender_def cart_effect_def header_effect_def axios_send_def mount_def Let_def)

text \<open>
  C8, as the code has it. When the render an operation belongs to is authenticated and
  the request of the operation is rejected, exactly one request has been issued (there is
  no retry) and the snapshot is unchanged; the four mutating operations return one
  failure result, whose message is the \<^verbatim>\<open>detail\<close> of the error response or the
  operation's fallback, \<^verbatim>\<open>getBasketSummary\<close> returns null, and \<^verbatim>\<open>fetchBasket\<close> returns
  undefined, the failure being logged only.
\<close>

theorem rejected_request_single_failure:
  assumes "flag"
  shows "fst (addToBasket flag p s q (Rejected e) w) = failure_result (AxiosError e) ''Failed to add to basket''
    \<and> basket (snd (addToBasket flag p s q (Rejected e) w)) = basket w
    \<and> length (sent (snd (addToBasket flag p s q (Rejected e) w))) = Suc (length (sent w))
    \<and> fst (updateBasketItem flag i q (Rejected e) w) = failure_result (AxiosError e) ''Failed to update item''
    \<and> basket (snd (updateBasketItem flag i q (Rejected e) w)) = basket w
    \<and> length (sent (snd (updateBasketItem flag i q (Rejected e) w))) = Suc (length (sent w))
    \<and> fst (removeFromBasket flag i (Rejected e) w) = failure_result (AxiosError e) ''Failed to remove item''
    \<and> basket (snd (removeFromBasket flag i (Rejected e) w)) = basket w
    \<and> length (sent (snd (removeFromBasket flag i (Rejected e) w))) = Suc (length (sent w))
    \<and> fst (clearBasket flag (Rejected e) w) = failure_result (AxiosError e) ''Failed to clear basket''
    \<and> basket (snd (clearBasket flag (Rejected e) w)) = basket w
    \<and> length (sent (snd (clearBasket flag (Rejected e) w))) = Suc (length (sent w))
    \<and> fst (getBasketSummary flag (Rejected e) w) = JNull
    \<and> basket (snd (getBasketSummary flag (Rejected e) w)) = basket w
    \<and> length (sent (snd (getBasketSummary flag (Rejected e) w))) = Suc (length (sent w))
    \<and> fst (fetchBasket flag (Rejected e) w) = JUndefined
    \<and> basket (snd (fetchBasket flag (Rejected e) w)) = basket w
    \<and> length (sent (snd (fetchBasket flag (Rejected e) w))) = Suc (length (sent w))
    \<and> is_failure_result (failure_result (AxiosError e) m)"
proof -
  have add: "fst (addToBasket flag p s q (Rejected e) w) = failure_result (AxiosError e) ''Failed to add to basket''
    \<and> basket (snd (addToBasket flag p s q (Rejected e) w)) = basket w
    \<and> length (sent (snd (addToBasket flag p s q (Rejected e) w))) = Suc (length (sent w))"
    using assms by (simp add: addToBasket_def axios_send_def Let_def)
  have upd: "fst (updateBasketItem flag i q (Rejected e) w) = failure_result (AxiosError e) ''Failed to update item''
    \<and> basket (snd (updateBasketItem flag i q (Rejected e) w)) = basket w
    \<and> length (sent (snd (updateBasketItem flag i q (Rejected e) w))) = Suc (length (sent w))"
    using assms by (simp add: updateBasketItem_def axios_send_def Let_def)
  have rem: "fst (removeFromBasket flag i (Rejected e) w) = failure_result (AxiosError e) ''Failed to remove item''
    \<and> basket (snd (removeFromBasket flag i (Rejected e) w)) = basket w
    \<and> length (sent (snd (removeFromBasket flag i (Rejected e) w))) = Suc (length (sent w))"
    using assms by (simp add: removeFromBasket_def axios_send_def Let_def)
  have cle: "fst (clearBasket flag (Rejected e) w) = failure_result (AxiosError e) ''Failed to clear basket''
    \<and> basket (snd (clearBasket flag (Rejected e) w)) = basket w
    \<and> length (sent (snd (clearBasket flag (Rejected e) w))) = Suc (length (sent w))"
    using assms by (simp add: clearBasket_def axios_send_def Let_def)
  have summ: "fst (getBasketSummary flag (Rejected e) w) = JNull
    \<and> basket (snd (getBasketSummary flag (Rejected e) w)) = basket w
    \<and> length (sent (snd (getBasketSummary flag (Rejected e) w))) = Suc (length (sent w))"
    using assms by (simp add: getBasketSummary_def axios_send_def Let_def)
  have fet: "fst (fetchBasket flag (Rejected e) w) = JUndefined
    \<and> basket (snd (fetchBasket flag (Rejected e) w)) = basket w
    \<and> length (sent (snd (fetchBasket flag (Rejected e) w))) = Suc (length (sent w))"
    using assms by (simp add: fetchBasket_def axios_send_def Let_def)
  from add upd rem cle summ fet failure_result_is_failure [of "AxiosError e" m]
  show ?thesis by blast
qed

theorem rejected_request_single_failure_witness:
  "isAuthenticated ((mount None)\<lparr>user := JObj [(''id'', JNum 1)], basket := JObj [(''total_items'', JNum 5)]\<rparr>)
   \<and> fst (updateBasketItem (isAuthenticated ((mount None)\<lparr>user := JObj [(''id'', JNum 1)], basket := JObj [(''total_items'', JNum 5)]\<rparr>)) ''7'' (JNum 3)
        (Rejected (Some (JObj [(''detail'', JStr ''Item not found'')]))) ((mount None)\<lparr>user := JObj [(''id'', JNum 1)], basket := JObj [(''total_items'', JNum 5)]\<rparr>))
     = JObj [(''success'', JBool False), (''error'', JStr ''Item not found'')]
   \<and> basket (snd (updateBasketItem (isAuthenticated ((mount None)\<lparr>user := JObj [(''id'', JNum 1)], basket := JObj [(''total_items'', JNum 5)]\<rparr>)) ''7'' (JNum 3)
        (Rejected (Some (JObj [(''detail'', JStr ''Item not found'')]))) ((mount None)\<lparr>user := JObj [(''id'', JNum 1)], basket := JObj [(''total_items'', JNum 5)]\<rparr>)))
     = JObj [(''total_items'', JNum 5)]
   \<and> length (sent (snd (updateBasketItem (isAuthenticated ((mount None)\<lparr>user := JObj [(''id'', JNum 1)], basket := JObj [(''total_items'', JNum 5)]\<rparr>)) ''7'' (JNum 3)
        (Rejected (Some (JObj [(''detail'', JStr ''Item not found'')]))) ((mount None)\<lparr>user := JObj [(''id'', JNum 1)], basket := JObj [(''total_items'', JNum 5)]\<rparr>))))
     = 1"
proof -
  have h: "isAuthenticated ((mount None)\<lparr>user := JObj [(''id'', JNum 1)], basket := JObj [(''total_items'', JNum 5)]\<rparr>)"
    by (simp add: isAuthenticated_def)
  show ?thesis
    using h rejected_request_single_failure [OF h,
        where e = "Some (JObj [(''detail'', JStr ''Item not found'')])" and i = "''7''" and q = "JNum 3"
        and w = "(mount None)\<lparr>user := JObj [(''id'', JNum 1)], basket := JObj [(''total_items'', JNum 5)]\<rparr>"]
    by (simp add: mount_def failure_result_def opt_chain_def js_or_def)
qed

text \<open>
  The claim as written fails for \<^verbatim>\<open>fetchBasket\<close>: when its request is rejected in an
  authenticated session the caller receives undefined, which is not a failure result and
  is also what a successful fetch returns.
\<close>

theorem rejected_fetch_counterexample:
  "isAuthenticated ((mount None)\<lparr>user := JObj [(''id'', JNum 1)], basket := JObj [(''total_items'', JNum 5)]\<rparr>)
   \<and> fst (fetchBasket (isAuthenticated ((mount None)\<lparr>user := JObj [(''id'', JNum 1)], basket := JObj [(''total_items'', JNum 5)]\<rparr>)) (Rejected None) ((mount None)\<lparr>user := JObj [(''id'', JNum 1)], basket := JObj [(''total_items'', JNum 5)]\<rparr>)) = JUndefined
   \<and> \<not> is_failure_result (fst (fetchBasket (isAuthenticated ((mount None)\<lparr>user := JObj [(''id'', JNum 1)], basket := JObj [(''total_items'', JNum 5)]\<rparr>)) (Rejected None) ((mount None)\<lparr>user := JObj [(''id'', JNum 1)], basket := JObj [(''total_items'', JNum 5)]\<rparr>)))
   \<and> fst (fetchBasket (isAuthenticated ((mount None)\<lparr>user := JObj [(''id'', JNum 1)], basket := JObj [(''total_items'', JNum 5)]\<rparr>)) (Resolved (JObj [])) ((mount None)\<lparr>user := JObj [(''id'', JNum 1)], basket := JObj [(''total_items'', JNum 5)]\<rparr>))
       = fst (fetchBasket (isAuthenticated ((mount None)\<lparr>user := JObj [(''id'', JNum 1)], basket := JObj [(''total_items'', JNum 5)]\<rparr>)) (Rejected None) ((mount None)\<lparr>user := JObj [(''id'', JNum 1)], basket := JObj [(''total_items'', JNum 5)]\<rparr>))"
  by (simp add: fetchBasket_def isAuthenticated_def is_failure_result_def Let_def)

section \<open>Startup\<close>

text \<open>
  C3. If a (non-empty) token is persisted at startup and the profile request made with it
  is rejected, for whatever reason, then after startup the persisted token is gone and
  the session is unauthenticated; the profile request was issued once, and a restart
  from the storage left behind issues no request at all.
\<close>

theorem failed_validation_erases_token:
  assumes "t \<noteq> []"
  shows "stored_token (initialize (Some t) (Rejected e) fr) = None
    \<and> \<not> isAuthenticated (initialize (Some t) (Rejected e) fr)
    \<and> sent (initialize (Some t) (Rejected e) fr)
        = [\<lparr>verb = ''GET'', url = ''/auth/me'', payload = JUndefined, credential = Some (''Bearer '' @ t)\<rparr>]
    \<and> sent (initialize (stored_token (initialize (Some t) (Rejected e) fr)) r' fr') = []
    \<and> \<not> isAuthenticated (initialize (stored_token (initialize (Some t) (Rejected e) fr)) r' fr')"
proof -
  have first: "initialize (Some t) (Rejected e) fr =
      \<lparr>user = JNull, loading = False, token = Some t, stored_token = None,
       authorization = None, basket = JNull, cartLoading = False,
       sent = [\<lparr>verb = ''GET'', url = ''/auth/me'', payload = JUndefined, credential = Some (''Bearer '' @ t)\<rparr>]\<rparr>"
    using assms
    by (simp add: initialize_def mount_def cart_effect_def header_effect_def checkAuth_def
        rerender_def axios_send_def isAuthenticated_def Let_def)
  have again: "initialize None r' fr' =
      \<lparr>user = JNull, loading = False, token = None, stored_token = None,
       authorization = None, basket = JNull, cartLoading = False, sent = []\<rparr>"
    by (simp add: initialize_def mount_def cart_effect_def header_effect_def checkAuth_def
        rerender_def isAuthenticated_def Let_def)
  show ?thesis
    by (simp add: first again isAuthenticated_def)
qed

theorem failed_validation_erases_token_witness:
  "''stale'' \<noteq> []
   \<and> stored_token (initialize (Some ''stale'') (Rejected (Some (JObj [(''detail'', JStr ''Could not validate credentials'')]))) (Rejected None)) = None
   \<and> \<not> isAuthenticated (initialize (Some ''stale'') (Rejected (Some (JObj [(''detail'', JStr ''Could not validate credentials'')]))) (Rejected None))
   \<and> length (sent (initialize (Some ''stale'') (Rejected (Some (JObj [(''detail'', JStr ''Could not validate credentials'')]))) (Rejected None))) = 1"
proof -
  have h: "''stale'' \<noteq> []" by simp
  show ?thesis
    using h failed_validation_erases_token [OF h,
        of "Some (JObj [(''detail'', JStr ''Could not validate credentials'')])" "Rejected None"]
    by simp
qed

text \<open>
  C4 at the input where the code departs from it: a persisted token \<^verbatim>\<open>stale\<close> that the
  server rejects. The \<^verbatim>\<open>catch\<close> block of \<^verbatim>\<open>checkAuth\<close> erases the storage entry and the
  header but never calls \<^verbatim>\<open>setToken(null)\<close>, so the \<^verbatim>\<open>token\<close> cell still holds the rejected
  token, while \<^verbatim>\<open>logout\<close> from the same state clears it.
\<close>

theorem failed_validation_keeps_token_cell:
  "token (initialize (Some ''stale'') (Rejected None) (Rejected None)) = Some ''stale''
   \<and> user (initialize (Some ''stale'') (Rejected None) (Rejected None)) = JNull
   \<and> stored_token (initialize (Some ''stale'') (Rejected None) (Rejected None)) = None
   \<and> authorization (initialize (Some ''stale'') (Rejected None) (Rejected None)) = None
   \<and> token (logout (initialize (Some ''stale'') (Rejected None) (Rejected None))) = None"
  by (simp add: initialize_def mount_def cart_effect_def header_effect_def checkAuth_def
      rerender_def axios_send_def isAuthenticated_def logout_def Let_def)

section \<open>What each operation leaves alone\<close>

text \<open>
  Field by field, what the building blocks do to the session, to the credential and to
  the log of requests. The later proofs use these equations instead of the definitions.
\<close>

lemma axios_send_proj:
  "token (axios_send m u b w) = token w"
  "stored_token (axios_send m u b w) = stored_token w"
  "authorization (axios_send m u b w) = authorization w"
  "user (axios_send m u b w) = user w"
  "basket (axios_send m u b w) = basket w"
  "sent (axios_send m u b w)
     = sent w @ [\<lparr>verb = m, url = u, payload = b, credential = authorization w\<rparr>]"
  by (simp_all add: axios_send_def)

lemma fetchBasket_proj:
  "token (snd (fetchBasket a r w)) = token w"
  "stored_token (snd (fetchBasket a r w)) = stored_token w"
  "authorization (snd (fetchBasket a r w)) = authorization w"
  "user (snd (fetchBasket a r w)) = user w"
  "sent (snd (fetchBasket a r w))
     = (if a
        then sent w @ [\<lparr>verb = ''GET'', url = ''/basket/'', payload = JUndefined,
                        credential = authorization w\<rparr>]
        else sent w)"
  by (cases r; simp add: fetchBasket_def axios_send_def Let_def)+

lemma cart_effect_proj:
  "token (cart_effect r w) = token w"
  "stored_token (cart_effect r w) = stored_token w"
  "authorization (cart_effect r w) = authorization w"
  "user (cart_effect r w) = user w"
  "sent (cart_effect r w)
     = (if isAuthenticated w
        then sent w @ [\<lparr>verb = ''GET'', url = ''/basket/'', payload = JUndefined,
                        credential = authorization w\<rparr>]
        else sent w)"
  by (simp_all add: cart_effect_def Let_def fetchBasket_proj)

lemma header_effect_proj:
  "token (header_effect w) = token w"
  "stored_token (header_effect w) = stored_token w"
  "user (header_effect w) = user w"
  "basket (header_effect w) = basket w"
  "sent (header_effect w) = sent w"
  "authorization (header_effect w)
     = (case token w of None \<Rightarrow> None | Some t \<Rightarrow> if t \<noteq> [] then Some (''Bearer '' @ t) else None)"
  by (simp_all add: header_effect_def split: option.splits)

lemma rerender_proj:
  "token (rerender old fr w) = token w"
  "stored_token (rerender old fr w) = stored_token w"
  "user (rerender old fr w) = user w"
  "authorization (rerender old fr w)
     = (if token w \<noteq> token old
        then (case token w of None \<Rightarrow> None | Some t \<Rightarrow> if t \<noteq> [] then Some (''Bearer '' @ t) else None)
        else authorization w)"
  "sent (rerender old fr w)
     = (if isAuthenticated w \<and> \<not> isAuthenticated old
        then sent w @ [\<lparr>verb = ''GET'', url = ''/basket/'', payload = JUndefined,
                        credential = authorization w\<rparr>]
        else sent w)"
  by (simp_all add: rerender_def Let_def cart_effect_proj header_effect_proj)






lemma login_proj:
  "token (snd (login e p g w)) = (case g of Granted t u \<Rightarrow> Some t | _ \<Rightarrow> token w)"
  "stored_token (snd (login e p g w)) = (case g of Granted t u \<Rightarrow> Some t | _ \<Rightarrow> stored_token w)"
  "authorization (snd (login e p g w))
     = (case g of Granted t u \<Rightarrow> Some (''Bearer '' @ t) | _ \<Rightarrow> authorization w)"
  "user (snd (login e p g w)) = (case g of Granted t u \<Rightarrow> u | _ \<Rightarrow> user w)"
  "basket (snd (login e p g w)) = basket w"
  "sent (snd (login e p g w))
     = sent w @ [\<lparr>verb = ''POST'', url = ''/auth/login'',
                   payload = JObj [(''email'', JStr e), (''password'', JStr p)],
                   credential = authorization w\<rparr>]"
  by (cases g; simp add: login_def axios_send_def Let_def)+



lemma logout_proj:
  "token (logout w) = None"
  "stored_token (logout w) = None"
  "authorization (logout w) = None"
  "user (logout w) = JNull"
  "basket (logout w) = basket w"
  "sent (logout w) = sent w"
  by (simp_all add: logout_def)














lemma rerender_basket:
  "basket (rerender old fr w)
     = (if isAuthenticated w = isAuthenticated old then basket w
        else if isAuthenticated w then (case fr of Resolved d \<Rightarrow> d | Rejected e \<Rightarrow> basket w)
        else JNull)"
  by (cases fr; simp add: rerender_def Let_def cart_effect_def header_effect_def fetchBasket_def
      axios_send_def split: option.splits)+

lemma rerender_same:
  "isAuthenticated w = isAuthenticated old \<Longrightarrow> token w = token old \<Longrightarrow> rerender old fr w = w"
  by (simp add: rerender_def)

section \<open>Login\<close>

text \<open>
  C5. A login that fails, because the request is rejected or because the answer has no
  body, returns \<^verbatim>\<open>{success: false, error: message}\<close>, where the message is the
  \<^verbatim>\<open>detail\<close> of the error response when there is a (truthy) one and \<^verbatim>\<open>Login failed\<close>
  otherwise; the token, the user, the persisted token and the credential are left as
  they were, and so is the basket: only the request is added to the log.
\<close>

theorem failing_login_leaves_session:
  assumes "g = Bodiless \<or> g = Refused e"
  shows "is_failure_result (fst (login em pw g w))
    \<and> member (fst (login em pw g w)) ''success'' = JBool False
    \<and> member (fst (login em pw g w)) ''error''
        = (case g of
             Refused (Some body) \<Rightarrow>
               if truthy (member body ''detail'') then member body ''detail'' else JStr ''Login failed''
           | _ \<Rightarrow> JStr ''Login failed'')
    \<and> token (step (Login em pw g fr) w) = token w
    \<and> user (step (Login em pw g fr) w) = user w
    \<and> stored_token (step (Login em pw g fr) w) = stored_token w
    \<and> authorization (step (Login em pw g fr) w) = authorization w
    \<and> basket (step (Login em pw g fr) w) = basket w
    \<and> step (Login em pw g fr) w = snd (login em pw g w)"
proof -
  have st: "snd (login em pw g w) = axios_send ''POST'' ''/auth/login''
                 (JObj [(''email'', JStr em), (''password'', JStr pw)]) w"
    using assms by (auto simp: login_def Let_def)
  have keep: "isAuthenticated (snd (login em pw g w)) = isAuthenticated w"
      "token (snd (login em pw g w)) = token w"
    by (simp_all add: st axios_send_def isAuthenticated_def)
  have stp: "step (Login em pw g fr) w = snd (login em pw g w)"
    by (simp add: rerender_same keep)
  have res: "fst (login em pw g w) = JObj [(''success'', JBool False), (''error'',
       (case g of
             Refused (Some body) \<Rightarrow>
               if truthy (member body ''detail'') then member body ''detail'' else JStr ''Login failed''
           | _ \<Rightarrow> JStr ''Login failed''))]"
    using assms
    by (auto simp: login_def Let_def failure_result_def js_or_def opt_chain_member split: option.splits)
  show ?thesis
    unfolding stp
    by (simp add: res st axios_send_def is_failure_result_def)
qed

theorem failing_login_leaves_session_witness:
  "is_failure_result (fst (login ''a@b.com'' ''wrong''
        (Refused (Some (JObj [(''detail'', JStr ''Incorrect email or password'')]))) (mount None)))
   \<and> member (fst (login ''a@b.com'' ''wrong''
        (Refused (Some (JObj [(''detail'', JStr ''Incorrect email or password'')]))) (mount None))) ''error''
     = JStr ''Incorrect email or password''
   \<and> member (fst (login ''a@b.com'' ''wrong'' (Refused None) (mount None))) ''error''
     = JStr ''Login failed''
   \<and> token (step (Login ''a@b.com'' ''wrong'' (Refused None) (Rejected None)) (mount None))
     = token (mount None)
   \<and> user (step (Login ''a@b.com'' ''wrong'' (Refused None) (Rejected None)) (mount None))
     = user (mount None)
   \<and> stored_token (step (Login ''a@b.com'' ''wrong'' (Refused None) (Rejected None)) (mount None))
     = stored_token (mount None)"
proof -
  have h1: "Refused (Some (JObj [(''detail'', JStr ''Incorrect email or password'')])) = Bodiless
      \<or> Refused (Some (JObj [(''detail'', JStr ''Incorrect email or password'')]))
         = Refused (Some (JObj [(''detail'', JStr ''Incorrect email or password'')]))"
    by simp
  have h2: "Refused None = Bodiless \<or> Refused None = Refused None"
    by simp
  have c1: "(case Refused (Some (JObj [(''detail'', JStr ''Incorrect email or password'')])) of
             Refused (Some body) \<Rightarrow>
               if truthy (member body ''detail'') then member body ''detail'' else JStr ''Login failed''
           | _ \<Rightarrow> JStr ''Login failed'') = JStr ''Incorrect email or password''"
    by simp
  have c2: "(case Refused None of
             Refused (Some body) \<Rightarrow>
               if truthy (member body ''detail'') then member body ''detail'' else JStr ''Login failed''
           | _ \<Rightarrow> JStr ''Login failed'') = JStr ''Login failed''"
    by simp
  note a = failing_login_leaves_session [OF h1, of "''a@b.com''" "''wrong''" "mount None" "Rejected None",
      unfolded c1]
  note b = failing_login_leaves_session [OF h2, of "''a@b.com''" "''wrong''" "mount None" "Rejected None",
      unfolded c2]
  from a b show ?thesis by blast
qed

section \<open>The authentication flag and the basket\<close>

text \<open>
  C7. In the render that follows a change of the authentication flag from false to true,
  \<^verbatim>\<open>CartProvider\<close> issues exactly one \<^verbatim>\<open>GET /basket/\<close>, whose body becomes the snapshot
  when it resolves; in the render that follows a change from true to false the snapshot
  is set to null and no request is issued; when the flag does not change, the render
  issues nothing and keeps the snapshot. So a successful login from an unauthenticated
  state sends the login request and then one basket request, and a logout from an
  authenticated state discards the snapshot without a request.
\<close>

theorem auth_flag_transitions:
  "(\<not> isAuthenticated old \<and> isAuthenticated w \<longrightarrow>
      sent (rerender old fr w)
        = sent w @ [\<lparr>verb = ''GET'', url = ''/basket/'', payload = JUndefined,
                      credential = authorization w\<rparr>]
      \<and> (\<forall>d. fr = Resolved d \<longrightarrow> basket (rerender old fr w) = d))
   \<and> (isAuthenticated old \<and> \<not> isAuthenticated w \<longrightarrow>
      basket (rerender old fr w) = JNull \<and> sent (rerender old fr w) = sent w)
   \<and> (isAuthenticated old = isAuthenticated w \<longrightarrow>
      basket (rerender old fr w) = basket w \<and> sent (rerender old fr w) = sent w)
   \<and> (\<not> isAuthenticated w \<and> truthy u \<longrightarrow>
      sent (step (Login em pw (Granted t u) fr) w)
        = sent w @ [\<lparr>verb = ''POST'', url = ''/auth/login'',
                      payload = JObj [(''email'', JStr em), (''password'', JStr pw)],
                      credential = authorization w\<rparr>,
                    \<lparr>verb = ''GET'', url = ''/basket/'', payload = JUndefined,
                      credential = Some (''Bearer '' @ t)\<rparr>])
   \<and> (isAuthenticated w \<longrightarrow>
      basket (step (Logout fr) w) = JNull \<and> sent (step (Logout fr) w) = sent w)"
proof -
  have up: "\<not> isAuthenticated old \<and> isAuthenticated w \<longrightarrow>
      sent (rerender old fr w)
        = sent w @ [\<lparr>verb = ''GET'', url = ''/basket/'', payload = JUndefined,
                      credential = authorization w\<rparr>]
      \<and> (\<forall>d. fr = Resolved d \<longrightarrow> basket (rerender old fr w) = d)"
    by (auto simp: rerender_proj rerender_basket)
  have down: "isAuthenticated old \<and> \<not> isAuthenticated w \<longrightarrow>
      basket (rerender old fr w) = JNull \<and> sent (rerender old fr w) = sent w"
    by (auto simp: rerender_proj rerender_basket)
  have same: "isAuthenticated old = isAuthenticated w \<longrightarrow>
      basket (rerender old fr w) = basket w \<and> sent (rerender old fr w) = sent w"
    by (auto simp: rerender_proj rerender_basket)
  have flag: "isAuthenticated (snd (login em pw (Granted t u) w)) = truthy u"
    by (simp add: isAuthenticated_def login_proj)
  have signin: "\<not> isAuthenticated w \<and> truthy u \<longrightarrow>
      sent (step (Login em pw (Granted t u) fr) w)
        = sent w @ [\<lparr>verb = ''POST'', url = ''/auth/login'',
                      payload = JObj [(''email'', JStr em), (''password'', JStr pw)],
                      credential = authorization w\<rparr>,
                    \<lparr>verb = ''GET'', url = ''/basket/'', payload = JUndefined,
                      credential = Some (''Bearer '' @ t)\<rparr>]"
    by (simp add: rerender_proj flag login_proj)
  have gone: "\<not> isAuthenticated (logout w)"
    by (simp add: isAuthenticated_def logout_proj)
  have signout: "isAuthenticated w \<longrightarrow>
      basket (step (Logout fr) w) = JNull \<and> sent (step (Logout fr) w) = sent w"
    using gone by (simp add: rerender_proj rerender_basket logout_proj)
  from up down same signin signout show ?thesis by blast
qed

theorem auth_flag_transitions_witness:
  "sent (step (Login ''a@b.com'' ''x'' (Granted ''srv-token'' (JObj [(''id'', JNum 1)]))
           (Resolved (JObj [(''total_items'', JNum 0)])))
        (initialize None (Rejected None) (Rejected None)))
     = [\<lparr>verb = ''POST'', url = ''/auth/login'',
         payload = JObj [(''email'', JStr ''a@b.com''), (''password'', JStr ''x'')],
         credential = None\<rparr>,
        \<lparr>verb = ''GET'', url = ''/basket/'', payload = JUndefined,
         credential = Some (''Bearer '' @ ''srv-token'')\<rparr>]
   \<and> basket (step (Logout (Rejected None))
        ((initialize None (Rejected None) (Rejected None))
           \<lparr>user := JObj [(''id'', JNum 1)], basket := JObj [(''total_items'', JNum 3)]\<rparr>)) = JNull
   \<and> sent (step (Logout (Rejected None))
        ((initialize None (Rejected None) (Rejected None))
           \<lparr>user := JObj [(''id'', JNum 1)], basket := JObj [(''total_items'', JNum 3)]\<rparr>)) = []"
proof -
  have w0: "initialize None (Rejected None) (Rejected None) =
      \<lparr>user = JNull, loading = False, token = None, stored_token = None,
       authorization = None, basket = JNull, cartLoading = False, sent = []\<rparr>"
    by (simp add: initialize_def mount_def cart_effect_def header_effect_def checkAuth_def
        rerender_def isAuthenticated_def Let_def)
  have h1: "\<not> isAuthenticated (initialize None (Rejected None) (Rejected None))
      \<and> truthy (JObj [(''id'', JNum 1)])"
    by (simp add: w0 isAuthenticated_def)
  have h2: "isAuthenticated ((initialize None (Rejected None) (Rejected None))
           \<lparr>user := JObj [(''id'', JNum 1)], basket := JObj [(''total_items'', JNum 3)]\<rparr>)"
    by (simp add: isAuthenticated_def)
  show ?thesis
    using h1 h2
      auth_flag_transitions [of "initialize None (Rejected None) (Rejected None)"
        "initialize None (Rejected None) (Rejected None)" "Resolved (JObj [(''total_items'', JNum 0)])"
        "JObj [(''id'', JNum 1)]" "''a@b.com''" "''x''" "''srv-token''"]
      auth_flag_transitions [of "initialize None (Rejected None) (Rejected None)"
        "(initialize None (Rejected None) (Rejected None))
           \<lparr>user := JObj [(''id'', JNum 1)], basket := JObj [(''total_items'', JNum 3)]\<rparr>"
        "Rejected None"]
    by (simp add: w0)
qed

section \<open>The credential over a run\<close>




end
